theory Spec2Isabelle
  imports Complex_Main
begin

section \<open>Circular statistics of \<^verbatim>\<open>pyart.util.circular_stats\<close>\<close>

text \<open>
  The module is a set of short numpy functions. One-dimensional arrays are lists, a masked
  array is a list of optional values (\<open>None\<close> is a masked element), and a floating point
  number is a real number or one of the three special values of IEEE arithmetic, so that
  the results numpy produces where real arithmetic is undefined (the mean of nothing, the
  logarithm of zero, a division by zero) are values of the model. Rounding and the sign of
  zero are not modelled: arithmetic on finite values is exact.
\<close>

subsection \<open>Errors raised by numpy\<close>

datatype error = IndexError | AxisError | ValueError | TypeError

subsection \<open>Floating point values\<close>

datatype npfloat = Fin real | PInf | NInf | NaN

fun np_neg :: "npfloat \<Rightarrow> npfloat" where
  "np_neg (Fin a) = Fin (- a)"
| "np_neg PInf = NInf"
| "np_neg NInf = PInf"
| "np_neg NaN = NaN"

fun np_add :: "npfloat \<Rightarrow> npfloat \<Rightarrow> npfloat" where
  "np_add (Fin a) (Fin b) = Fin (a + b)"
| "np_add NaN _ = NaN"
| "np_add _ NaN = NaN"
| "np_add PInf NInf = NaN"
| "np_add NInf PInf = NaN"
| "np_add PInf _ = PInf"
| "np_add _ PInf = PInf"
| "np_add NInf _ = NInf"
| "np_add _ NInf = NInf"

definition np_sub :: "npfloat \<Rightarrow> npfloat \<Rightarrow> npfloat" where
  "np_sub a b = np_add a (np_neg b)"

text \<open>The infinity that has the sign of a real number; zero times infinity is not a number.\<close>

definition inf_of_sign :: "real \<Rightarrow> npfloat" where
  "inf_of_sign s = (if s = 0 then NaN else if 0 < s then PInf else NInf)"

fun np_mul :: "npfloat \<Rightarrow> npfloat \<Rightarrow> npfloat" where
  "np_mul (Fin a) (Fin b) = Fin (a * b)"
| "np_mul NaN _ = NaN"
| "np_mul _ NaN = NaN"
| "np_mul (Fin a) PInf = inf_of_sign a"
| "np_mul (Fin a) NInf = inf_of_sign (- a)"
| "np_mul PInf (Fin b) = inf_of_sign b"
| "np_mul NInf (Fin b) = inf_of_sign (- b)"
| "np_mul PInf PInf = PInf"
| "np_mul PInf NInf = NInf"
| "np_mul NInf PInf = NInf"
| "np_mul NInf NInf = PInf"

text \<open>Division by zero gives an infinity, or \<open>NaN\<close> for \<open>0 / 0\<close>; it does not raise.\<close>

fun np_div :: "npfloat \<Rightarrow> npfloat \<Rightarrow> npfloat" where
  "np_div (Fin a) (Fin b) = (if b = 0 then inf_of_sign a else Fin (a / b))"
| "np_div NaN _ = NaN"
| "np_div _ NaN = NaN"
| "np_div (Fin a) _ = Fin 0"
| "np_div PInf (Fin b) = (if 0 \<le> b then PInf else NInf)"
| "np_div NInf (Fin b) = (if 0 \<le> b then NInf else PInf)"
| "np_div _ _ = NaN"

fun np_sqrt :: "npfloat \<Rightarrow> npfloat" where
  "np_sqrt (Fin a) = (if a < 0 then NaN else Fin (sqrt a))"
| "np_sqrt PInf = PInf"
| "np_sqrt _ = NaN"

fun np_log :: "npfloat \<Rightarrow> npfloat" where
  "np_log (Fin a) = (if a < 0 then NaN else if a = 0 then NInf else Fin (ln a))"
| "np_log PInf = PInf"
| "np_log _ = NaN"

fun np_cos :: "npfloat \<Rightarrow> npfloat" where
  "np_cos (Fin a) = Fin (cos a)"
| "np_cos _ = NaN"

fun np_sin :: "npfloat \<Rightarrow> npfloat" where
  "np_sin (Fin a) = Fin (sin a)"
| "np_sin _ = NaN"

text \<open>The two-argument arctangent of finite arguments, by quadrant.\<close>

definition arctan2 :: "real \<Rightarrow> real \<Rightarrow> real" where
  "arctan2 y x =
     (if 0 < x then arctan (y / x)
      else if x < 0 then (if 0 \<le> y then arctan (y / x) + pi else arctan (y / x) - pi)
      else if 0 < y then pi / 2
      else if y < 0 then - (pi / 2)
      else 0)"

fun np_arctan2 :: "npfloat \<Rightarrow> npfloat \<Rightarrow> npfloat" where
  "np_arctan2 (Fin y) (Fin x) = Fin (arctan2 y x)"
| "np_arctan2 NaN _ = NaN"
| "np_arctan2 _ NaN = NaN"
| "np_arctan2 (Fin y) PInf = Fin 0"
| "np_arctan2 (Fin y) NInf = Fin (if y < 0 then - pi else pi)"
| "np_arctan2 PInf (Fin x) = Fin (pi / 2)"
| "np_arctan2 NInf (Fin x) = Fin (- (pi / 2))"
| "np_arctan2 PInf PInf = Fin (pi / 4)"
| "np_arctan2 PInf NInf = Fin (3 * pi / 4)"
| "np_arctan2 NInf PInf = Fin (- (pi / 4))"
| "np_arctan2 NInf NInf = Fin (- (3 * pi / 4))"

definition np_sum :: "npfloat list \<Rightarrow> npfloat" where
  "np_sum xs = foldr np_add xs (Fin 0)"

text \<open>\<^verbatim>\<open>np.mean\<close>: the mean of an empty array is \<open>0 / 0\<close>, that is \<open>NaN\<close>.\<close>

definition np_mean :: "npfloat list \<Rightarrow> npfloat" where
  "np_mean xs = np_div (np_sum xs) (Fin (real (length xs)))"

definition rad2deg :: "npfloat \<Rightarrow> npfloat" where
  "rad2deg x = np_mul x (Fin (180 / pi))"

definition deg2rad :: "npfloat \<Rightarrow> npfloat" where
  "deg2rad x = np_mul x (Fin (pi / 180))"

subsection \<open>Scalars and one-dimensional arrays with broadcasting\<close>

datatype ndarray = Scalar npfloat | Array "npfloat list"

fun nd_map :: "(npfloat \<Rightarrow> npfloat) \<Rightarrow> ndarray \<Rightarrow> ndarray" where
  "nd_map f (Scalar a) = Scalar (f a)"
| "nd_map f (Array as) = Array (map f as)"

text \<open>A binary operation broadcasts a scalar or an array of length one against the other
  operand; two arrays of other, different lengths raise \<^verbatim>\<open>ValueError\<close>.\<close>

fun nd_binop ::
  "(npfloat \<Rightarrow> npfloat \<Rightarrow> npfloat) \<Rightarrow> ndarray \<Rightarrow> ndarray \<Rightarrow> error + ndarray" where
  "nd_binop f (Scalar a) (Scalar b) = Inr (Scalar (f a b))"
| "nd_binop f (Scalar a) (Array bs) = Inr (Array (map (f a) bs))"
| "nd_binop f (Array as) (Scalar b) = Inr (Array (map (\<lambda>a. f a b) as))"
| "nd_binop f (Array as) (Array bs) =
     (if length as = length bs then Inr (Array (map2 f as bs))
      else if length as = 1 then Inr (Array (map (f (hd as)) bs))
      else if length bs = 1 then Inr (Array (map (\<lambda>a. f a (hd bs)) as))
      else Inl ValueError)"

subsection \<open>The circular statistics\<close>

definition mean_of_two_angles :: "ndarray \<Rightarrow> ndarray \<Rightarrow> error + ndarray" where
  "mean_of_two_angles angles1 angles2 =
     (case nd_binop np_add (nd_map np_cos angles1) (nd_map np_cos angles2) of
        Inl e \<Rightarrow> Inl e
      | Inr cs \<Rightarrow>
          (case nd_binop np_add (nd_map np_sin angles1) (nd_map np_sin angles2) of
             Inl e \<Rightarrow> Inl e
           | Inr ss \<Rightarrow>
               (let x = nd_map (\<lambda>c. np_div c (Fin 2)) cs;
                    y = nd_map (\<lambda>s. np_div s (Fin 2)) ss
                in nd_binop np_arctan2 y x)))"

definition mean_of_two_angles_deg :: "ndarray \<Rightarrow> ndarray \<Rightarrow> error + ndarray" where
  "mean_of_two_angles_deg angle1 angle2 =
     (case mean_of_two_angles (nd_map deg2rad angle1) (nd_map deg2rad angle2) of
        Inl e \<Rightarrow> Inl e
      | Inr m \<Rightarrow> Inr (nd_map rad2deg m))"

definition angular_mean :: "npfloat list \<Rightarrow> npfloat" where
  "angular_mean angles =
     (let x = map np_cos angles; y = map np_sin angles
      in np_arctan2 (np_mean y) (np_mean x))"

definition angular_std :: "npfloat list \<Rightarrow> npfloat" where
  "angular_std angles =
     (let x = map np_cos angles; y = map np_sin angles;
          norm = np_sqrt (np_add (np_mul (np_mean x) (np_mean x))
                                 (np_mul (np_mean y) (np_mean y)))
      in np_sqrt (np_mul (Fin (- 2)) (np_log norm)))"

definition angular_mean_deg :: "npfloat list \<Rightarrow> npfloat" where
  "angular_mean_deg angles = rad2deg (angular_mean (map deg2rad angles))"

definition angular_std_deg :: "npfloat list \<Rightarrow> npfloat" where
  "angular_std_deg angles = rad2deg (angular_std (map deg2rad angles))"

definition interval_mean :: "npfloat list \<Rightarrow> npfloat \<Rightarrow> npfloat \<Rightarrow> npfloat" where
  "interval_mean dist' interval_min interval_max =
     (let half_width = np_div (np_sub interval_max interval_min) (Fin 2);
          center = np_add interval_min half_width;
          a = map (\<lambda>d. np_mul (np_div (np_sub d center) half_width) (Fin pi)) dist';
          a_mean = angular_mean a
      in np_add (np_div (np_mul a_mean half_width) (Fin pi)) center)"




text \<open>A result is approximately \<open>r\<close> when it is a finite number no further than \<open>tol\<close>
  from \<open>r\<close>.\<close>

definition approx :: "real \<Rightarrow> npfloat \<Rightarrow> real \<Rightarrow> bool" where
  "approx tol v r = (case v of Fin m \<Rightarrow> \<bar>m - r\<bar> \<le> tol | _ \<Rightarrow> False)"

subsection \<open>Masked two-dimensional fields\<close>

type_synonym marray1 = "real option list"
type_synonym marray2 = "real option list list"

text \<open>A field is stored row by row; numpy arrays are rectangular.\<close>

definition ncols :: "'a list list \<Rightarrow> nat" where
  "ncols rows = (case rows of [] \<Rightarrow> 0 | r # _ \<Rightarrow> length r)"

definition rectangular :: "'a list list \<Rightarrow> bool" where
  "rectangular rows = (\<forall>r \<in> set rows. length r = ncols rows)"

definition columns :: "'a list list \<Rightarrow> 'a list list" where
  "columns rows = map (\<lambda>j. map (\<lambda>r. r ! j) rows) [0..<ncols rows]"

text \<open>
  The one-dimensional lanes a reduction along \<open>axis\<close> runs over: the columns for axis 0,
  the rows for axis 1. numpy counts negative axes from the last one and rejects any other
  axis of a two-dimensional array.
\<close>

definition lanes :: "int \<Rightarrow> 'a list list \<Rightarrow> error + 'a list list" where
  "lanes axis rows =
     (if axis = 0 \<or> axis = - 2 then Inr (columns rows)
      else if axis = 1 \<or> axis = - 1 then Inr rows
      else Inl AxisError)"

text \<open>The valid entries of a lane, in order.\<close>

definition compressed :: "marray1 \<Rightarrow> real list" where
  "compressed lane = List.map_filter id lane"

definition plain_mean :: "real list \<Rightarrow> real" where
  "plain_mean vs = sum_list vs / real (length vs)"

definition plain_median :: "real list \<Rightarrow> real" where
  "plain_median vs =
     (let s = sort vs; n = length s
      in if odd n then s ! (n div 2) else (s ! (n div 2 - 1) + s ! (n div 2)) / 2)"

text \<open>\<^verbatim>\<open>np.ma.mean\<close> and \<^verbatim>\<open>np.ma.median\<close> on one lane: a lane with no valid entry gives a
  masked result.\<close>

definition ma_mean1 :: "marray1 \<Rightarrow> real option" where
  "ma_mean1 lane =
     (let vs = compressed lane in if vs = [] then None else Some (plain_mean vs))"

definition ma_median1 :: "marray1 \<Rightarrow> real option" where
  "ma_median1 lane =
     (let vs = compressed lane in if vs = [] then None else Some (plain_median vs))"

definition ma_mean :: "marray2 \<Rightarrow> int \<Rightarrow> error + marray1" where
  "ma_mean field axis =
     (case lanes axis field of Inl e \<Rightarrow> Inl e | Inr ls \<Rightarrow> Inr (map ma_mean1 ls))"

definition ma_median :: "marray2 \<Rightarrow> int \<Rightarrow> error + marray1" where
  "ma_median field axis =
     (case lanes axis field of Inl e \<Rightarrow> Inl e | Inr ls \<Rightarrow> Inr (map ma_median1 ls))"

definition getmaskarray :: "marray2 \<Rightarrow> bool list list" where
  "getmaskarray field = map (map (\<lambda>e. e = None)) field"

definition logical_not :: "bool list list \<Rightarrow> bool list list" where
  "logical_not m = map (map Not) m"

text \<open>\<^verbatim>\<open>np.sum(valid, axis=0, dtype=int)\<close>: the number of \<open>True\<close> entries of each column.\<close>

definition sum_axis0 :: "bool list list \<Rightarrow> int list" where
  "sum_axis0 valid = map (\<lambda>col. int (length (filter id col))) (columns valid)"

text \<open>\<^verbatim>\<open>values[cond] = np.ma.masked\<close>: a boolean index must have the length of the array it
  indexes, otherwise numpy raises \<^verbatim>\<open>IndexError\<close>.\<close>

definition setitem_masked :: "marray1 \<Rightarrow> bool list \<Rightarrow> error + marray1" where
  "setitem_masked values cond =
     (if length cond \<noteq> length values then Inl IndexError
      else Inr (map2 (\<lambda>v c. if c then None else v) values cond))"

definition compute_directional_stats ::
  "marray2 \<Rightarrow> string \<Rightarrow> int \<Rightarrow> int \<Rightarrow> error + marray1 \<times> int list" where
  "compute_directional_stats field avg_type nvalid_min axis =
     (case (if avg_type = ''mean'' then ma_mean field axis else ma_median field axis) of
        Inl e \<Rightarrow> Inl e
      | Inr values \<Rightarrow>
          (let valid = logical_not (getmaskarray field);
               nvalid = sum_axis0 valid
           in case setitem_masked values (map (\<lambda>n. n < nvalid_min) nvalid) of
                Inl e \<Rightarrow> Inl e
              | Inr values' \<Rightarrow> Inr (values', nvalid)))"

subsection \<open>The same function on a store of array objects\<close>

text \<open>
  \<^verbatim>\<open>compute_directional_stats\<close> is the one function of the module that writes into an
  array. To say which array, arrays live in a store and are named by their address; every
  numpy call that returns a new array allocates one, and the masking assignment updates
  the array at the address of \<^verbatim>\<open>values\<close> in place. The model covers masked
  two-dimensional fields; another object at the field's address is a \<^verbatim>\<open>TypeError\<close>.
\<close>

datatype obj =
    MaskedArray2 marray2
  | MaskedArray1 marray1
  | BoolArray2 "bool list list"
  | BoolArray1 "bool list"
  | IntArray1 "int list"

type_synonym store = "obj list"

definition alloc :: "store \<Rightarrow> obj \<Rightarrow> store \<times> nat" where
  "alloc s ob = (s @ [ob], length s)"

definition compute_directional_stats_st ::
  "store \<Rightarrow> nat \<Rightarrow> string \<Rightarrow> int \<Rightarrow> int \<Rightarrow> store \<times> (error + nat \<times> nat)" where
  "compute_directional_stats_st s field avg_type nvalid_min axis =
     (case s ! field of
        MaskedArray2 f \<Rightarrow>
          (case (if avg_type = ''mean'' then ma_mean f axis else ma_median f axis) of
             Inl e \<Rightarrow> (s, Inl e)
           | Inr vs \<Rightarrow>
               (let (s1, values) = alloc s (MaskedArray1 vs);
                    valid = logical_not (getmaskarray f);
                    (s2, valid_ref) = alloc s1 (BoolArray2 valid);
                    nvalid = sum_axis0 valid;
                    (s3, nvalid_ref) = alloc s2 (IntArray1 nvalid);
                    cond = map (\<lambda>n. n < nvalid_min) nvalid;
                    (s4, cond_ref) = alloc s3 (BoolArray1 cond)
                in case s4 ! values of
                     MaskedArray1 cur \<Rightarrow>
                       (case setitem_masked cur cond of
                          Inl e \<Rightarrow> (s4, Inl e)
                        | Inr cur' \<Rightarrow>
                            (s4[values := MaskedArray1 cur'], Inr (values, nvalid_ref)))
                   | _ \<Rightarrow> (s4, Inl TypeError)))
      | _ \<Rightarrow> (s, Inl TypeError))"

section \<open>Properties of the circular statistics\<close>

subsection \<open>Means of finite values\<close>

lemma np_sum_Fin: "np_sum (map Fin xs) = Fin (sum_list xs)"
  by (induction xs) (simp_all add: np_sum_def)

lemma np_mean_Fin:
  "xs \<noteq> [] \<Longrightarrow> np_mean (map Fin xs) = Fin (sum_list xs / real (length xs))"
  by (simp add: np_mean_def np_sum_Fin)

lemma np_mean_Fin_o:
  "xs \<noteq> [] \<Longrightarrow>
   np_mean (map (Fin \<circ> f) xs) = Fin (sum_list (map f xs) / real (length xs))"
  using np_mean_Fin [of "map f xs"] by simp

lemma np_sin_o_Fin: "np_sin \<circ> Fin = Fin \<circ> sin"
  by (rule ext) simp

lemma np_cos_o_Fin: "np_cos \<circ> Fin = Fin \<circ> cos"
  by (rule ext) simp

lemma angular_mean_Fin:
  "xs \<noteq> [] \<Longrightarrow>
   angular_mean (map Fin xs) =
     Fin (arctan2 (sum_list (map sin xs) / real (length xs))
                  (sum_list (map cos xs) / real (length xs)))"
  by (simp add: angular_mean_def np_mean_Fin_o np_sin_o_Fin np_cos_o_Fin)

subsection \<open>The range of the arctangent\<close>

lemma arctan2_lower: "- pi < arctan2 y x"
  using arctan_lbound [of "y / x"] arctan_ubound [of "y / x"] pi_gt_zero
  unfolding arctan2_def
  by (auto simp: zero_less_arctan_iff divide_pos_neg divide_neg_neg)

lemma arctan2_upper: "arctan2 y x \<le> pi"
  using arctan_lbound [of "y / x"] arctan_ubound [of "y / x"] pi_gt_zero
  unfolding arctan2_def
  by (auto simp: arctan_le_zero_iff divide_nonneg_neg)


subsection \<open>Whole turns\<close>

lemma sin_shift: "sin (x + 2 * pi * of_int k) = sin x"
  by (simp add: sin_add)

lemma cos_shift: "cos (x + 2 * pi * of_int k) = cos x"
  by (simp add: cos_add)

lemma map2_shift_sin:
  "length xs = length ks \<Longrightarrow>
   map sin (map2 (\<lambda>x k. x + 2 * pi * of_int k) xs ks) = map sin xs"
  by (induction xs ks rule: list_induct2) (simp_all add: sin_shift)

lemma map2_shift_cos:
  "length xs = length ks \<Longrightarrow>
   map cos (map2 (\<lambda>x k. x + 2 * pi * of_int k) xs ks) = map cos xs"
  by (induction xs ks rule: list_induct2) (simp_all add: cos_shift)

subsection \<open>The resultant vector\<close>












subsection \<open>Intervals\<close>















subsection \<open>Particular angles\<close>



lemma sin_179: "sin (179 * pi / 180) = sin (pi / 180)"
proof -
  have "179 * pi / 180 = pi - pi / 180" by simp
  then show ?thesis by (simp only: sin_pi_minus)
qed

lemma cos_179: "cos (179 * pi / 180) = - cos (pi / 180)"
proof -
  have "179 * pi / 180 = pi - pi / 180" by simp
  then show ?thesis by (simp only: cos_pi_minus)
qed

lemma sin_359: "sin (359 * (pi / 180)) = - sin (pi / 180)"
proof -
  have "359 * (pi / 180) = 2 * pi - pi / 180" by simp
  then show ?thesis by (simp only: sin_2pi_minus)
qed

lemma cos_359: "cos (359 * (pi / 180)) = cos (pi / 180)"
proof -
  have "359 * (pi / 180) = 2 * pi - pi / 180" by simp
  then show ?thesis by (simp only: cos_2pi_minus)
qed

lemma cos_1_deg_pos: "0 < cos (pi / 180)"
  using pi_gt_zero by (intro cos_gt_zero_pi) simp_all



lemma interval_mean_359_1: "interval_mean [Fin 359, Fin 1] (Fin 0) (Fin 360) = Fin 360"
proof -
  have a: "interval_mean [Fin 359, Fin 1] (Fin 0) (Fin 360) =
      np_add (np_div (np_mul (angular_mean [Fin (179 * pi / 180), Fin (- (179 * pi / 180))])
         (Fin 180)) (Fin pi)) (Fin 180)"
    by (simp add: interval_mean_def np_sub_def Let_def)
  have "angular_mean [Fin (179 * pi / 180), Fin (- (179 * pi / 180))] = Fin pi"
    using cos_1_deg_pos
    by (simp add: angular_mean_def np_mean_def np_sum_def sin_179 cos_179 arctan2_def
        del: times_divide_eq_left)
  then show ?thesis unfolding a by simp
qed

subsection \<open>The mean of two angles\<close>

lemma two_angles_zip:
  "length as = length bs \<Longrightarrow>
   map2 np_arctan2
     (map (\<lambda>s. np_div s (Fin 2)) (map2 np_add (map np_sin (map Fin as)) (map np_sin (map Fin bs))))
     (map (\<lambda>c. np_div c (Fin 2)) (map2 np_add (map np_cos (map Fin as)) (map np_cos (map Fin bs))))
   = map2 (\<lambda>a b. Fin (arctan2 ((sin a + sin b) / 2) ((cos a + cos b) / 2))) as bs"
  by (induction as bs rule: list_induct2) simp_all

lemma mean_of_two_angles_arrays:
  assumes "length as = length bs"
  shows "mean_of_two_angles (Array (map Fin as)) (Array (map Fin bs)) =
           Inr (Array (map2 (\<lambda>a b. Fin (arctan2 ((sin a + sin b) / 2) ((cos a + cos b) / 2)))
                  as bs))"
  by (simp only: mean_of_two_angles_def nd_map.simps nd_binop.simps length_map length_zip
      assms min.idem simp_thms if_True sum.case Let_def two_angles_zip [OF assms])

lemma mean_of_two_angles_deg_359_1:
  "mean_of_two_angles_deg (Scalar (Fin 359)) (Scalar (Fin 1)) = Inr (Scalar (Fin 0))"
  using cos_1_deg_pos
  by (simp add: mean_of_two_angles_deg_def mean_of_two_angles_def deg2rad_def rad2deg_def
      sin_359 cos_359 arctan2_def del: times_divide_eq_right)

section \<open>Properties of the directional statistics of a field\<close>

lemma columns_Cons:
  "columns (r # rs) = map (\<lambda>j. map (\<lambda>r. r ! j) (r # rs)) [0..<length r]"
  by (simp add: columns_def ncols_def)

lemma upt_3: "[0..<3] = [0, 1, 2]"
  by (simp add: upt_rec)

lemma upt_2: "[0..<2] = [0, 1]"
  by (simp add: upt_rec)

lemma length_columns: "length (columns rows) = ncols rows"
  by (simp add: columns_def)

lemma ncols_map_map: "ncols (map (map f) rows) = ncols rows"
  by (cases rows) (simp_all add: ncols_def)

lemma length_sum_axis0: "length (sum_axis0 (logical_not (getmaskarray field))) = ncols field"
  by (simp add: sum_axis0_def length_columns logical_not_def getmaskarray_def ncols_map_map)

lemma columns_nth: "j < ncols rows \<Longrightarrow> columns rows ! j = map (\<lambda>r. r ! j) rows"
  by (simp add: columns_def)

lemma columns_map_map:
  assumes "rectangular rows" and "j < ncols rows"
  shows "columns (map (map f) rows) ! j = map f (columns rows ! j)"
proof -
  have "\<And>r. r \<in> set rows \<Longrightarrow> map f r ! j = f (r ! j)"
    using assms by (simp add: rectangular_def)
  then show ?thesis
    using assms(2) by (simp add: columns_nth ncols_map_map)
qed

lemma count_valid:
  "length (filter (\<lambda>e. \<exists>y. e = Some y) lane) = length (compressed lane)"
  by (induction lane) (auto simp: compressed_def List.map_filter_simps)

lemma sum_axis0_nth:
  assumes "rectangular field" and "j < ncols field"
  shows "sum_axis0 (logical_not (getmaskarray field)) ! j
           = int (length (compressed (columns field ! j)))"
proof -
  have "logical_not (getmaskarray field) = map (map (\<lambda>e. \<not> (e = None))) field"
    by (simp add: logical_not_def getmaskarray_def)
  then show ?thesis
    using assms columns_map_map [OF assms, of "\<lambda>e. \<not> (e = None)"]
    by (simp add: sum_axis0_def length_columns ncols_map_map count_valid)
qed

text \<open>Along axis 0 the function never raises, and its two results are these.\<close>

lemma stats_axis0:
  "compute_directional_stats field avg_type nvalid_min 0 =
     Inr (map2 (\<lambda>v c. if c then None else v)
            (map (if avg_type = ''mean'' then ma_mean1 else ma_median1) (columns field))
            (map (\<lambda>n. n < nvalid_min) (sum_axis0 (logical_not (getmaskarray field)))),
          sum_axis0 (logical_not (getmaskarray field)))"
  by (simp add: compute_directional_stats_def ma_mean_def ma_median_def lanes_def
      setitem_masked_def length_sum_axis0 length_columns Let_def)

text \<open>Along axis 0 the shapes agree, the counts are the counts of valid entries of the
  columns, and every column with fewer than \<open>nvalid_min\<close> of them is masked.\<close>

lemma stats_axis0_contract:
  assumes "rectangular field"
  shows "\<exists>values nvalid.
           compute_directional_stats field avg_type nvalid_min 0 = Inr (values, nvalid)
         \<and> length values = ncols field \<and> length nvalid = ncols field
         \<and> (\<forall>j < ncols field.
               nvalid ! j = int (length (compressed (map (\<lambda>r. r ! j) field)))
             \<and> 0 \<le> nvalid ! j
             \<and> (nvalid ! j < nvalid_min \<longrightarrow> values ! j = None))"
proof -
  let ?nvalid = "sum_axis0 (logical_not (getmaskarray field))"
  have len: "length ?nvalid = ncols field" by (rule length_sum_axis0)
  have "\<And>j. j < ncols field \<Longrightarrow>
      ?nvalid ! j = int (length (compressed (map (\<lambda>r. r ! j) field)))"
    using sum_axis0_nth [OF assms] by (simp add: columns_nth)
  then show ?thesis
    using len by (simp add: stats_axis0 length_columns)
qed



text \<open>On a square field axis 1 does not raise, but the rows are masked by the counts of
  the columns: the second row has a valid entry and is masked all the same.\<close>

lemma stats_axis1_square_example:
  "compute_directional_stats [[Some 1, None], [Some 2, None]] ''mean'' 1 1
     = Inr ([Some 1, None], [2, 0])"
  by (simp add: compute_directional_stats_def ma_mean_def lanes_def setitem_masked_def
      sum_axis0_def logical_not_def getmaskarray_def columns_Cons upt_2 ma_mean1_def
      compressed_def List.map_filter_simps plain_mean_def)


subsection \<open>The store\<close>

lemma stats_st_frame:
  assumes "compute_directional_stats_st s field avg_type nvalid_min axis = (s', r)"
    and "a < length s"
  shows "s' ! a = s ! a \<and> length s \<le> length s'"
  using assms
  by (auto simp: compute_directional_stats_st_def alloc_def Let_def nth_append
      split: obj.splits sum.splits if_splits)

text \<open>The function on the store returns what the function on values returns, in two
  arrays allocated during the call.\<close>

lemma stats_st_result:
  assumes "s ! field = MaskedArray2 f"
  shows "case compute_directional_stats f avg_type nvalid_min axis of
           Inl e \<Rightarrow> snd (compute_directional_stats_st s field avg_type nvalid_min axis) = Inl e
         | Inr (values, nvalid) \<Rightarrow>
             (\<exists>v n. compute_directional_stats_st s field avg_type nvalid_min axis
                       = (fst (compute_directional_stats_st s field avg_type nvalid_min axis),
                          Inr (v, n))
                \<and> length s \<le> v \<and> length s \<le> n
                \<and> fst (compute_directional_stats_st s field avg_type nvalid_min axis) ! v
                     = MaskedArray1 values
                \<and> fst (compute_directional_stats_st s field avg_type nvalid_min axis) ! n
                     = IntArray1 nvalid)"
  using assms
  by (auto simp: compute_directional_stats_st_def compute_directional_stats_def alloc_def
      Let_def nth_append split: sum.splits)

lemma stats_st_example:
  "compute_directional_stats_st [MaskedArray2 [[None, Some 1], [None, Some 3]]] 0 ''mean'' 1 0
     = ([MaskedArray2 [[None, Some 1], [None, Some 3]],
         MaskedArray1 [None, Some 2],
         BoolArray2 [[False, True], [False, True]],
         IntArray1 [0, 2],
         BoolArray1 [True, False]], Inr (1, 3))"
  by (simp add: compute_directional_stats_st_def alloc_def ma_mean_def lanes_def columns_Cons
      upt_2 ma_mean1_def compressed_def List.map_filter_simps plain_mean_def logical_not_def
      getmaskarray_def sum_axis0_def setitem_masked_def)

section \<open>The claims\<close>

text \<open>
  C1. For every masked field, every \<open>nvalid_min\<close> and both axes the function should return
  the statistics with the reduction axis removed and, in the same shape, the counts of
  valid entries, masking the positions with fewer than \<open>nvalid_min\<close> of them. Along axis 1
  it does not: the count of valid entries is still taken along axis 0, so on a 2 by 3
  field the two row means meet three column counts and the masking assignment raises
  \<^verbatim>\<open>IndexError\<close> instead of returning a pair of equally long arrays.
\<close>

theorem stats_axis1_raises_index_error:
  "compute_directional_stats
     [[Some 1, Some 2, Some 3], [Some 4, Some 5, Some 6]] ''mean'' 1 1 = Inl IndexError"
  by (simp add: compute_directional_stats_def ma_mean_def lanes_def setitem_masked_def
      sum_axis0_def logical_not_def getmaskarray_def columns_Cons upt_3)




text \<open>
  C3, as amended. The interval mean of 359 and 1 on the interval from 0 to 360 is 360:
  the seam itself, named by the upper end of the interval, which is the same point of
  the circle as 0; it is not near 180.
\<close>

theorem interval_mean_seam:
  "interval_mean [Fin 359, Fin 1] (Fin 0) (Fin 360) = Fin 360
   \<and> \<not> approx 1 (interval_mean [Fin 359, Fin 1] (Fin 0) (Fin 360)) 180"
  by (simp add: interval_mean_359_1 approx_def)

text \<open>C3 as stated fails: the result, 360, is not within 1 of 0.\<close>

theorem interval_mean_seam_counterexample:
  "\<not> approx 1 (interval_mean [Fin 359, Fin 1] (Fin 0) (Fin 360)) 0"
  by (simp add: interval_mean_359_1 approx_def)



text \<open>
  C5. The angular mean of a non-empty distribution of finite angles is the two-argument
  arctangent of the mean sine and the mean cosine, it lies in the interval from \<open>-\<pi>\<close>
  (excluded) to \<open>\<pi>\<close> (included), and it does not change when whole turns, any integer
  multiple of \<open>2\<pi>\<close> for each angle, are added to the angles.
\<close>

theorem angular_mean_periodic:
  assumes "xs \<noteq> []" and "length xs = length ks"
  shows "\<exists>m. angular_mean (map Fin xs) = Fin m
           \<and> m = arctan2 (sum_list (map sin xs) / real (length xs))
                         (sum_list (map cos xs) / real (length xs))
           \<and> - pi < m \<and> m \<le> pi
           \<and> angular_mean (map Fin (map2 (\<lambda>x k. x + 2 * pi * of_int k) xs ks)) = Fin m"
proof -
  let ?ys = "map2 (\<lambda>x k. x + 2 * pi * of_int k) xs ks"
  have len: "length ?ys = length xs" using assms(2) by simp
  have ne: "?ys \<noteq> []" using assms len by (metis length_0_conv)
  have "angular_mean (map Fin ?ys) = angular_mean (map Fin xs)"
    unfolding angular_mean_Fin [OF ne] angular_mean_Fin [OF assms(1)]
      map2_shift_sin [OF assms(2)] map2_shift_cos [OF assms(2)] len ..
  then show ?thesis
    using angular_mean_Fin [OF assms(1)] arctan2_lower arctan2_upper by simp
qed

text \<open>Three turns added to the angle 0 and one turn taken from \<open>\<pi> / 2\<close>.\<close>

theorem angular_mean_periodic_witness:
  "\<exists>m. angular_mean [Fin 0, Fin (pi / 2)] = Fin m \<and> - pi < m \<and> m \<le> pi
       \<and> angular_mean [Fin (0 + 2 * pi * 3), Fin (pi / 2 + 2 * pi * (- 1))] = Fin m"
  using angular_mean_periodic [of "[0, pi / 2]" "[3, - 1]"] by simp

text \<open>
  C6. On two arrays of finite angles of the same length the mean of two angles is, entry
  by entry, the arctangent of the averaged sines and the averaged cosines; and the mean
  of 359 and 1 degrees is 0 degrees.
\<close>

theorem mean_of_two_angles_pairwise:
  assumes "length as = length bs"
  shows "mean_of_two_angles (Array (map Fin as)) (Array (map Fin bs)) =
           Inr (Array (map2 (\<lambda>a b. Fin (arctan2 ((sin a + sin b) / 2) ((cos a + cos b) / 2)))
                  as bs))
       \<and> mean_of_two_angles_deg (Scalar (Fin 359)) (Scalar (Fin 1)) = Inr (Scalar (Fin 0))"
  using mean_of_two_angles_arrays [OF assms] mean_of_two_angles_deg_359_1 by simp

text \<open>Two arrays of two angles each: the mean of 0 and 0 is 0, the mean of a quarter
  turn with itself is a quarter turn.\<close>

theorem mean_of_two_angles_pairwise_witness:
  "mean_of_two_angles (Array [Fin 0, Fin (pi / 2)]) (Array [Fin 0, Fin (pi / 2)]) =
     Inr (Array [Fin 0, Fin (pi / 2)])"
  using mean_of_two_angles_pairwise [of "[0, pi / 2]" "[0, pi / 2]"]
  by (simp add: arctan2_def)

text \<open>
  C7. The degree variants are the composition of the conversion to radians, the radian
  function and the conversion back to degrees, for the mean and for the standard
  deviation, on every input.
\<close>

theorem degree_variants_compose:
  "angular_mean_deg angles = rad2deg (angular_mean (map deg2rad angles))
   \<and> angular_std_deg angles = rad2deg (angular_std (map deg2rad angles))"
  by (simp add: angular_mean_deg_def angular_std_deg_def)




text \<open>
  C9. \<^verbatim>\<open>compute_directional_stats\<close> leaves the field it is given, and every other array
  that existed before the call, as it was: the masking assignment writes into the array
  of values allocated during the call. The other functions of the module contain no
  assignment into an array at all, which is why they are functions of values here.
\<close>

theorem stats_st_leaves_field:
  assumes "field < length s"
  shows "fst (compute_directional_stats_st s field avg_type nvalid_min axis) ! field = s ! field
       \<and> (\<forall>a < length s.
            fst (compute_directional_stats_st s field avg_type nvalid_min axis) ! a = s ! a)
       \<and> length s \<le> length (fst (compute_directional_stats_st s field avg_type nvalid_min axis))"
  using stats_st_frame [OF surjective_pairing] assms by blast

text \<open>A call that masks the first entry of its freshly allocated values: the field at
  address 0 keeps both of its masked entries and both of its numbers.\<close>

theorem stats_st_leaves_field_witness:
  "fst (compute_directional_stats_st
          [MaskedArray2 [[None, Some 1], [None, Some 3]]] 0 ''mean'' 1 0) ! 0
     = MaskedArray2 [[None, Some 1], [None, Some 3]]
   \<and> fst (compute_directional_stats_st
          [MaskedArray2 [[None, Some 1], [None, Some 3]]] 0 ''mean'' 1 0) ! 1
     = MaskedArray1 [None, Some 2]"
  using stats_st_leaves_field [of 0 "[MaskedArray2 [[None, Some 1], [None, Some 3]]]"
      "''mean''" 1 0]
  by (simp add: stats_st_example)



end
